theory Spec2Isabelle
  imports Main
begin

section \<open>JavaScript values\<close>

text \<open>
  The values the two handlers of \<^verbatim>\<open>index.js\<close> can see: what \<^verbatim>\<open>process.env\<close> holds,
  what the provider call resolves with or throws, and the object literals the handlers
  build. They are plain data (no functions, getters or \<^verbatim>\<open>toJSON\<close> hooks); numbers are the
  integer-valued ones, the only kind the program writes (1000, 3000, 500).
  An object is the list of its properties in insertion order; a lookup takes the first
  entry of a name.
\<close>

datatype jsval =
    JUndefined
  | JNull
  | JBool bool
  | JNum int
  | JStr string
  | JArr "jsval list"
  | JObj "(string \<times> jsval) list"

text \<open>An expression either yields a value or throws one.\<close>

datatype 'a completion = Normal 'a | Throw jsval

text \<open>Truthiness, and \<^verbatim>\<open>a || b\<close>: the left operand when it is truthy, else the right one.\<close>

fun truthy :: "jsval \<Rightarrow> bool" where
  "truthy JUndefined = False"
| "truthy JNull = False"
| "truthy (JBool b) = b"
| "truthy (JNum n) = (n \<noteq> 0)"
| "truthy (JStr s) = (s \<noteq> [])"
| "truthy (JArr vs) = True"
| "truthy (JObj fs) = True"

definition js_or :: "jsval \<Rightarrow> jsval \<Rightarrow> jsval" where
  "js_or a b = (if truthy a then a else b)"

text \<open>
  \<^verbatim>\<open>new Error(m)\<close>, as far as this program looks at it: an object whose \<^verbatim>\<open>message\<close> is m.
  The engine's own TypeError for a property read on \<^verbatim>\<open>undefined\<close> or \<^verbatim>\<open>null\<close> carries
  V8's text.
\<close>

definition js_Error :: "string \<Rightarrow> jsval" where
  "js_Error m = JObj [(''message'', JStr m)]"

definition type_error :: "string \<Rightarrow> string \<Rightarrow> jsval" where
  "type_error what p =
     js_Error (''Cannot read properties of '' @ what @ '' (reading '' @ [CHR 0x27] @ p @ [CHR 0x27] @ '')'')"

text \<open>
  \<^verbatim>\<open>v.p\<close>. On \<^verbatim>\<open>undefined\<close> and \<^verbatim>\<open>null\<close> the read throws; on an object it is the
  property's value, \<^verbatim>\<open>undefined\<close> when the object has none of that name; on the other
  values it is \<^verbatim>\<open>undefined\<close> for every name their prototypes do not define (the program
  reads \<^verbatim>\<open>client_secret\<close> and \<^verbatim>\<open>message\<close> only).
\<close>

fun get_prop :: "jsval \<Rightarrow> string \<Rightarrow> jsval completion" where
  "get_prop JUndefined p = Throw (type_error ''undefined'' p)"
| "get_prop JNull p = Throw (type_error ''null'' p)"
| "get_prop (JObj fs) p = Normal (case map_of fs p of None \<Rightarrow> JUndefined | Some v \<Rightarrow> v)"
| "get_prop v p = Normal JUndefined"

fun has_prop :: "jsval \<Rightarrow> string \<Rightarrow> bool" where
  "has_prop (JObj fs) p = (map_of fs p \<noteq> None)"
| "has_prop v p = False"

section \<open>JSON documents and \<^verbatim>\<open>JSON.stringify\<close>\<close>

text \<open>
  The body of a response is the JSON document the client parses. \<^verbatim>\<open>JSON.stringify\<close>
  gives no text for \<^verbatim>\<open>undefined\<close>, leaves a property whose value is \<^verbatim>\<open>undefined\<close> out
  of an object, and writes \<^verbatim>\<open>null\<close> for such an element of an array.
\<close>

datatype json =
    JsNull
  | JsBool bool
  | JsNum int
  | JsStr string
  | JsArr "json list"
  | JsObj "(string \<times> json) list"

fun stringify :: "jsval \<Rightarrow> json option"
  and stringify_elems :: "jsval list \<Rightarrow> json list"
  and stringify_props :: "(string \<times> jsval) list \<Rightarrow> (string \<times> json) list" where
  "stringify JUndefined = None"
| "stringify JNull = Some JsNull"
| "stringify (JBool b) = Some (JsBool b)"
| "stringify (JNum n) = Some (JsNum n)"
| "stringify (JStr s) = Some (JsStr s)"
| "stringify (JArr vs) = Some (JsArr (stringify_elems vs))"
| "stringify (JObj fs) = Some (JsObj (stringify_props fs))"
| "stringify_elems [] = []"
| "stringify_elems (v # vs) =
     (case stringify v of None \<Rightarrow> JsNull | Some j \<Rightarrow> j) # stringify_elems vs"
| "stringify_props [] = []"
| "stringify_props ((k, v) # fs) =
     (case stringify v of None \<Rightarrow> stringify_props fs | Some j \<Rightarrow> (k, j) # stringify_props fs)"

section \<open>The Express response object\<close>

text \<open>
  \<^verbatim>\<open>res\<close> starts with status 200 and nothing sent. \<^verbatim>\<open>res.status(c)\<close> sets the status;
  \<^verbatim>\<open>res.json(v)\<close> sends \<^verbatim>\<open>JSON.stringify(v)\<close>; \<^verbatim>\<open>res.send(v)\<close> with an object is
  \<^verbatim>\<open>res.json(v)\<close>, and the handlers pass object literals only, so \<open>res_send\<close> takes the
  literal's properties.
\<close>

record res =
  statusCode :: nat
  body :: "json option"

definition new_res :: res where
  "new_res = \<lparr>statusCode = 200, body = None\<rparr>"

definition res_status :: "nat \<Rightarrow> res \<Rightarrow> res" where
  "res_status c r = r\<lparr>statusCode := c\<rparr>"

definition res_json :: "jsval \<Rightarrow> res \<Rightarrow> res" where
  "res_json v r = r\<lparr>body := stringify v\<rparr>"

definition res_send :: "(string \<times> jsval) list \<Rightarrow> res \<Rightarrow> res" where
  "res_send fs r = res_json (JObj fs) r"

text \<open>What the client receives: the status and the document, once something was sent.\<close>

definition reply :: "res \<Rightarrow> (nat \<times> json) option" where
  "reply r = (case body r of None \<Rightarrow> None | Some j \<Rightarrow> Some (statusCode r, j))"

section \<open>The server\<close>

text \<open>
  The process-wide values of lines 1 to 6, after \<^verbatim>\<open>dotenv\<close> has filled \<^verbatim>\<open>process.env\<close>:
  the environment itself, the key the provider client was built with, and the port.
\<close>

record config =
  env :: "string \<Rightarrow> string option"
  stripe_key :: jsval
  port :: jsval

definition env_get :: "(string \<Rightarrow> string option) \<Rightarrow> string \<Rightarrow> jsval" where
  "env_get e k = (case e k of None \<Rightarrow> JUndefined | Some s \<Rightarrow> JStr s)"

definition startup :: "(string \<Rightarrow> string option) \<Rightarrow> config" where
  "startup e =
     \<lparr>env = e,
      stripe_key = env_get e ''STRIPE_SECRET_KEY'',
      port = js_or (env_get e ''PORT'') (JNum 3000)\<rparr>"

text \<open>
  The state a handler runs in: the configuration, and the two things outside the process
  a handler can touch, the provider (every \<^verbatim>\<open>paymentIntents.create\<close> call with its list
  of arguments, in order) and the error stream of \<^verbatim>\<open>console.error\<close>. A call is an
  invocation of the client's method by a handler; the network requests the client
  library makes to carry one invocation out are its own and are not part of the state. A handler suspended
  at its \<^verbatim>\<open>await\<close> is kept with the \<^verbatim>\<open>res\<close> it holds, under the number of its request.
\<close>

record state =
  config :: config
  create_calls :: "jsval list list"
  error_stream :: "jsval list"
  awaiting :: "(nat \<times> res) list"

definition boot :: "(string \<Rightarrow> string option) \<Rightarrow> state" where
  "boot e = \<lparr>config = startup e, create_calls = [], error_stream = [], awaiting = []\<rparr>"

text \<open>A request, as the handlers get it: the body \<^verbatim>\<open>express.json()\<close> parsed.\<close>

record req =
  req_body :: jsval

subsection \<open>The middleware before the routes\<close>

text \<open>
  Line 9 puts \<^verbatim>\<open>express.json()\<close> in front of both routes. It hands a request on with
  the value it parsed as \<^verbatim>\<open>req.body\<close>; for a body it cannot parse it hands an error to
  Express, which answers 400, and no route is reached. \<open>payload\<close> is what the parser
  finds in an arriving request. \<^verbatim>\<open>express.static('public')\<close> of line 12 answers a GET
  that names a file of that directory and hands on every other request, a POST always;
  the directory is taken to hold no file under the name of a route.
\<close>

datatype payload = Parsed jsval | Unparseable

fun express_json :: "payload \<Rightarrow> req option" where
  "express_json (Parsed v) = Some \<lparr>req_body = v\<rparr>"
| "express_json Unparseable = None"

subsection \<open>GET /stripe-public-key\<close>

definition stripe_public_key :: "req \<Rightarrow> res \<Rightarrow> state \<Rightarrow> state \<times> res" where
  "stripe_public_key rq r st =
     (st, res_json (JObj [(''publicKey'', env_get (env (config st)) ''STRIPE_PUBLISHABLE_KEY'')]) r)"

subsection \<open>POST /create-payment-intent\<close>

definition intent_params :: jsval where
  "intent_params =
     JObj [(''amount'', JNum 1000),
           (''currency'', JStr ''usd''),
           (''payment_method_types'', JArr [JStr ''card''])]"

definition paymentIntents_create :: "jsval list \<Rightarrow> state \<Rightarrow> state" where
  "paymentIntents_create args st = st\<lparr>create_calls := create_calls st @ [args]\<rparr>"

text \<open>
  The handler runs in two turns. The first issues the provider call and suspends at the
  \<^verbatim>\<open>await\<close>. The second starts when the call settles, with the intent it resolved with
  or the value it threw: the rest of the \<^verbatim>\<open>try\<close> block, and the \<^verbatim>\<open>catch\<close> block for
  whatever the \<^verbatim>\<open>try\<close> block threw. A value thrown inside the \<^verbatim>\<open>catch\<close> block leaves the
  handler (the third component of the result).
\<close>

definition create_payment_intent_call :: "req \<Rightarrow> state \<Rightarrow> state" where
  "create_payment_intent_call rq st = paymentIntents_create [intent_params] st"

definition try_block :: "jsval completion \<Rightarrow> res \<Rightarrow> res completion" where
  "try_block awaited r =
     (case awaited of
        Throw e \<Rightarrow> Throw e
      | Normal paymentIntent \<Rightarrow>
          (case get_prop paymentIntent ''client_secret'' of
             Throw e \<Rightarrow> Throw e
           | Normal secret \<Rightarrow> Normal (res_send [(''clientSecret'', secret)] r)))"

definition catch_block :: "jsval \<Rightarrow> res \<Rightarrow> state \<Rightarrow> state \<times> res \<times> jsval option" where
  "catch_block error r st =
     (let st1 = st\<lparr>error_stream := error_stream st @ [error]\<rparr>;
          r1 = res_status 500 r
      in case get_prop error ''message'' of
           Throw e \<Rightarrow> (st1, r1, Some e)
         | Normal m \<Rightarrow> (st1, res_send [(''error'', m)] r1, None))"

definition create_payment_intent_resume ::
    "jsval completion \<Rightarrow> res \<Rightarrow> state \<Rightarrow> state \<times> res \<times> jsval option" where
  "create_payment_intent_resume awaited r st =
     (case try_block awaited r of
        Normal r' \<Rightarrow> (st, r', None)
      | Throw error \<Rightarrow> catch_block error r st)"

definition create_payment_intent ::
    "jsval completion \<Rightarrow> req \<Rightarrow> res \<Rightarrow> state \<Rightarrow> state \<times> res \<times> jsval option" where
  "create_payment_intent awaited rq r st =
     create_payment_intent_resume awaited r (create_payment_intent_call rq st)"

subsection \<open>Turns of the event loop\<close>

text \<open>
  Requests arrive and provider calls settle in any order; each turn runs to its end
  before the next starts. \<open>Get\<close> and \<open>Post\<close> are the arrival of a request for one of the
  two routes (\<open>Post\<close> with the number the request is known by): it goes through the body
  parser first, and the handler runs only for a request the parser hands on. \<open>Settle\<close>
  is the provider call of a suspended handler resolving or throwing. A turn gives the new
  state and the answers that ended in it: the response object of a handler run, or the
  status of the error page Express sends for a request the parser refused.
\<close>

datatype event = Get payload | Post nat payload | Settle nat "jsval completion"

datatype answer = Handled res | Refused nat

fun take_awaiting :: "nat \<Rightarrow> (nat \<times> res) list \<Rightarrow> (res \<times> (nat \<times> res) list) option" where
  "take_awaiting n [] = None"
| "take_awaiting n ((m, r) # xs) =
     (if m = n then Some (r, xs)
      else (case take_awaiting n xs of
              None \<Rightarrow> None
            | Some (r', ys) \<Rightarrow> Some (r', (m, r) # ys)))"

fun step :: "event \<Rightarrow> state \<Rightarrow> state \<times> answer list" where
  "step (Get p) st =
     (case express_json p of
        None \<Rightarrow> (st, [Refused 400])
      | Some rq \<Rightarrow>
          (case stripe_public_key rq new_res st of (st', r) \<Rightarrow> (st', [Handled r])))"
| "step (Post n p) st =
     (case express_json p of
        None \<Rightarrow> (st, [Refused 400])
      | Some rq \<Rightarrow>
          (let st' = create_payment_intent_call rq st
           in (st'\<lparr>awaiting := awaiting st' @ [(n, new_res)]\<rparr>, [])))"
| "step (Settle n awaited) st =
     (case take_awaiting n (awaiting st) of
        None \<Rightarrow> (st, [])
      | Some (r, rest) \<Rightarrow>
          (case create_payment_intent_resume awaited r (st\<lparr>awaiting := rest\<rparr>) of
             (st', r', thrown) \<Rightarrow> (st', [Handled r'])))"

fun run :: "event list \<Rightarrow> state \<Rightarrow> state \<times> answer list" where
  "run [] st = (st, [])"
| "run (ev # evs) st =
     (case step ev st of (st1, out1) \<Rightarrow>
        (case run evs st1 of (st2, out2) \<Rightarrow> (st2, out1 @ out2)))"

text \<open>The arrivals that start a run of the intent handler.\<close>

fun handled_post :: "event \<Rightarrow> bool" where
  "handled_post (Post n p) = (case express_json p of None \<Rightarrow> False | Some rq \<Rightarrow> True)"
| "handled_post ev = False"

section \<open>Properties\<close>

subsection \<open>Helper facts\<close>

lemma create_payment_intent_call_simps:
  "config (create_payment_intent_call rq st) = config st"
  "create_calls (create_payment_intent_call rq st) = create_calls st @ [[intent_params]]"
  "error_stream (create_payment_intent_call rq st) = error_stream st"
  "awaiting (create_payment_intent_call rq st) = awaiting st"
  by (simp_all add: create_payment_intent_call_def paymentIntents_create_def)

lemma catch_block_state:
  "fst (catch_block error r st) = st\<lparr>error_stream := error_stream st @ [error]\<rparr>"
  by (simp add: catch_block_def Let_def split: completion.split)

lemma resume_state:
  "fst (create_payment_intent_resume awaited r st) = st \<or>
   (\<exists>error. fst (create_payment_intent_resume awaited r st) =
      st\<lparr>error_stream := error_stream st @ [error]\<rparr>)"
  by (auto simp: create_payment_intent_resume_def catch_block_state split: completion.split)

lemma resume_config:
  "config (fst (create_payment_intent_resume awaited r st)) = config st"
  using resume_state [of awaited r st] by auto

lemma resume_create_calls:
  "create_calls (fst (create_payment_intent_resume awaited r st)) = create_calls st"
  using resume_state [of awaited r st] by auto

lemma step_config: "config (fst (step ev st)) = config st"
proof (cases ev)
  case (Get p)
  then show ?thesis by (cases p) (simp_all add: stripe_public_key_def)
next
  case (Post n p)
  then show ?thesis by (cases p) (simp_all add: Let_def create_payment_intent_call_simps)
next
  case (Settle n awaited)
  show ?thesis
  proof (cases "take_awaiting n (awaiting st)")
    case None
    with Settle show ?thesis by simp
  next
    case (Some p)
    obtain r rest where p: "p = (r, rest)" by (cases p)
    obtain st' r' thrown
      where run: "create_payment_intent_resume awaited r (st\<lparr>awaiting := rest\<rparr>) = (st', r', thrown)"
      by (cases "create_payment_intent_resume awaited r (st\<lparr>awaiting := rest\<rparr>)")
    have "config st' = config st"
      using resume_config [of awaited r "st\<lparr>awaiting := rest\<rparr>"] run by simp
    with Settle Some p run show ?thesis by simp
  qed
qed

lemma run_config: "config (fst (run evs st)) = config st"
proof (induction evs arbitrary: st)
  case Nil
  show ?case by simp
next
  case (Cons ev evs)
  obtain st1 out1 where one: "step ev st = (st1, out1)"
    by (cases "step ev st")
  obtain st2 out2 where rest: "run evs st1 = (st2, out2)"
    by (cases "run evs st1")
  have "config st1 = config st"
    using step_config [of ev st] one by simp
  moreover have "config st2 = config st1"
    using Cons.IH [of st1] rest by simp
  ultimately show ?case using one rest by simp
qed

lemma resume_reply_any_state:
  "snd (create_payment_intent_resume awaited r st) =
   snd (create_payment_intent_resume awaited r st')"
  by (simp add: create_payment_intent_resume_def catch_block_def Let_def split: completion.split)

lemma step_create_calls:
  "create_calls (fst (step ev st)) =
     create_calls st @ (if handled_post ev then [[intent_params]] else [])"
proof (cases ev)
  case (Get p)
  then show ?thesis by (cases p) (simp_all add: stripe_public_key_def)
next
  case (Post n p)
  then show ?thesis by (cases p) (simp_all add: Let_def create_payment_intent_call_simps)
next
  case (Settle n awaited)
  show ?thesis
  proof (cases "take_awaiting n (awaiting st)")
    case None
    with Settle show ?thesis by simp
  next
    case (Some p)
    obtain r rest where p: "p = (r, rest)" by (cases p)
    obtain st' r' thrown
      where run: "create_payment_intent_resume awaited r (st\<lparr>awaiting := rest\<rparr>) = (st', r', thrown)"
      by (cases "create_payment_intent_resume awaited r (st\<lparr>awaiting := rest\<rparr>)")
    have "create_calls st' = create_calls st"
      using resume_create_calls [of awaited r "st\<lparr>awaiting := rest\<rparr>"] run by simp
    with Settle Some p run show ?thesis by simp
  qed
qed

lemma run_create_calls:
  "create_calls (fst (run evs st)) =
     create_calls st @ replicate (length (filter handled_post evs)) [intent_params]"
proof (induction evs arbitrary: st)
  case Nil
  show ?case by simp
next
  case (Cons ev evs)
  obtain st1 out1 where one: "step ev st = (st1, out1)"
    by (cases "step ev st")
  obtain st2 out2 where rest: "run evs st1 = (st2, out2)"
    by (cases "run evs st1")
  have a: "create_calls st1 = create_calls st @ (if handled_post ev then [[intent_params]] else [])"
    using step_create_calls [of ev st] one by simp
  have b: "create_calls st2 =
      create_calls st1 @ replicate (length (filter handled_post evs)) [intent_params]"
    using Cons.IH [of st1] rest by simp
  show ?case using one rest a b by (simp add: replicate_app_Cons_same)
qed

subsection \<open>The intent endpoint: success\<close>

text \<open>
  Claim C1. When the provider call resolves with an intent whose \<^verbatim>\<open>client_secret\<close> is the
  string S, the handler answers with status 200 and a body of exactly one field,
  \<^verbatim>\<open>clientSecret\<close>, of value S; nothing is thrown and nothing is written to the error
  stream (the state is the one the call left).
\<close>

theorem intent_success_reply:
  assumes "get_prop paymentIntent ''client_secret'' = Normal (JStr S)"
  shows "create_payment_intent (Normal paymentIntent) rq new_res st =
           (create_payment_intent_call rq st,
            \<lparr>statusCode = 200, body = Some (JsObj [(''clientSecret'', JsStr S)])\<rparr>,
            None)"
  using assms
  by (simp add: create_payment_intent_def create_payment_intent_resume_def try_block_def
      res_send_def res_json_def new_res_def)

text \<open>The scenario of the specification: an empty body, a provider returning \<^verbatim>\<open>sk_abc_secret\<close>.\<close>

theorem intent_success_reply_witness:
  "get_prop (JObj [(''id'', JStr ''pi_1''), (''client_secret'', JStr ''sk_abc_secret'')])
       ''client_secret'' = Normal (JStr ''sk_abc_secret'')
   \<and> reply (fst (snd (create_payment_intent
        (Normal (JObj [(''id'', JStr ''pi_1''), (''client_secret'', JStr ''sk_abc_secret'')]))
        \<lparr>req_body = JObj []\<rparr> new_res (boot (map_of [])))))
     = Some (200, JsObj [(''clientSecret'', JsStr ''sk_abc_secret'')])"
proof -
  have h: "get_prop (JObj [(''id'', JStr ''pi_1''), (''client_secret'', JStr ''sk_abc_secret'')])
       ''client_secret'' = Normal (JStr ''sk_abc_secret'')"
    by simp
  show ?thesis
    using h intent_success_reply [OF h, of "\<lparr>req_body = JObj []\<rparr>" "boot (map_of [])"]
    by (simp add: reply_def)
qed

subsection \<open>The intent endpoint: failure\<close>

text \<open>
  Claim C2. When the provider call throws an error whose \<^verbatim>\<open>message\<close> is the string M, the
  handler answers with status 500 and the body \<^verbatim>\<open>{"error": M}\<close>, and the thrown value is
  appended to the error stream.
\<close>

theorem intent_failure_reply:
  assumes "get_prop error ''message'' = Normal (JStr M)"
  shows "create_payment_intent (Throw error) rq new_res st =
           ((create_payment_intent_call rq st)\<lparr>error_stream := error_stream st @ [error]\<rparr>,
            \<lparr>statusCode = 500, body = Some (JsObj [(''error'', JsStr M)])\<rparr>,
            None)"
  using assms
  by (simp add: create_payment_intent_def create_payment_intent_resume_def try_block_def
      catch_block_def res_send_def res_json_def res_status_def new_res_def
      create_payment_intent_call_simps)

text \<open>The scenario of the specification: a provider throwing \<^verbatim>\<open>Error("card declined")\<close>.\<close>

theorem intent_failure_reply_witness:
  "get_prop (js_Error ''card declined'') ''message'' = Normal (JStr ''card declined'')
   \<and> reply (fst (snd (create_payment_intent (Throw (js_Error ''card declined''))
        \<lparr>req_body = JObj []\<rparr> new_res (boot (map_of [])))))
     = Some (500, JsObj [(''error'', JsStr ''card declined'')])
   \<and> error_stream (fst (create_payment_intent (Throw (js_Error ''card declined''))
        \<lparr>req_body = JObj []\<rparr> new_res (boot (map_of []))))
     = [js_Error ''card declined'']"
proof -
  have h: "get_prop (js_Error ''card declined'') ''message'' = Normal (JStr ''card declined'')"
    by (simp add: js_Error_def)
  show ?thesis
    using h intent_failure_reply [OF h, of "\<lparr>req_body = JObj []\<rparr>" "boot (map_of [])"]
    by (simp add: reply_def boot_def)
qed

subsection \<open>The intent endpoint: what the provider is asked\<close>

text \<open>
  Claim C3. Whatever the request (its body included) and whatever the call later settles
  with, the one argument handed to the provider's intent-creation operation is the fixed
  object: amount 1000, currency \<^verbatim>\<open>usd\<close>, payment method types \<^verbatim>\<open>['card']\<close>. Nothing of
  the request reaches the call: two requests leave the same state behind.
\<close>

theorem intent_fixed_arguments:
  "create_calls (create_payment_intent_call rq st) =
     create_calls st @
       [[JObj [(''amount'', JNum 1000),
               (''currency'', JStr ''usd''),
               (''payment_method_types'', JArr [JStr ''card''])]]]
   \<and> create_calls (fst (create_payment_intent awaited rq r st)) =
     create_calls st @
       [[JObj [(''amount'', JNum 1000),
               (''currency'', JStr ''usd''),
               (''payment_method_types'', JArr [JStr ''card''])]]]
   \<and> create_payment_intent awaited rq r st = create_payment_intent awaited rq' r st"
proof -
  have call: "create_payment_intent_call rq st = create_payment_intent_call rq' st"
    by (simp add: create_payment_intent_call_def)
  have same: "create_payment_intent awaited rq r st = create_payment_intent awaited rq' r st"
    by (simp add: create_payment_intent_def call)
  show ?thesis
    using same
    by (simp add: create_payment_intent_def resume_create_calls create_payment_intent_call_simps
        intent_params_def)
qed

subsection \<open>The key endpoint\<close>


subsection \<open>The intent endpoint: no idempotence\<close>



subsection \<open>The intent endpoint: one handled request, one call\<close>

text \<open>
  Claim C6, as stated: every request to POST /create-payment-intent leads to exactly one
  provider call. It fails for a request whose body the parser of line 9 cannot parse:
  Express answers 400, the handler does not run, and the provider is not called at all.
\<close>

theorem unparseable_post_counterexample:
  "step (Post 1 Unparseable) (boot (map_of [])) = (boot (map_of []), [Refused 400])
   \<and> create_calls (fst (step (Post 1 Unparseable) (boot (map_of [])))) = []
   \<and> \<not> (length (create_calls (fst (step (Post 1 Unparseable) (boot (map_of []))))) =
          length (create_calls (boot (map_of []))) + 1)"
  by (simp add: boot_def)

text \<open>
  Claim C6, amended: for every request to POST /create-payment-intent that the body
  parser hands on, the handler invokes the client's intent-creation operation exactly
  once, with the fixed parameters, whatever the invocation settles with; the turn after
  the \<^verbatim>\<open>await\<close> invokes nothing, so the handler does not try a failed invocation again. A
  request the parser refuses is answered 400 with no invocation. Over any sequence of
  turns the operation has been invoked once for each request that was handed on. (The
  network requests the client library makes for one invocation are not counted.)
\<close>

theorem intent_one_call_when_handled:
  "create_calls (fst (create_payment_intent awaited rq r st)) = create_calls st @ [[intent_params]]
   \<and> create_calls (fst (create_payment_intent_resume awaited r st)) = create_calls st
   \<and> (express_json p = Some rq \<longrightarrow>
        create_calls (fst (step (Post n p) st)) = create_calls st @ [[intent_params]])
   \<and> (express_json p = None \<longrightarrow> step (Post n p) st = (st, [Refused 400]))
   \<and> create_calls (fst (step (Settle n awaited) st)) = create_calls st
   \<and> create_calls (fst (run evs st)) =
       create_calls st @ replicate (length (filter handled_post evs)) [intent_params]"
proof -
  have handler: "create_calls (fst (create_payment_intent awaited rq r st)) =
      create_calls st @ [[intent_params]]"
    by (simp add: create_payment_intent_def resume_create_calls create_payment_intent_call_simps)
  have handed_on: "express_json p = Some rq \<longrightarrow>
      create_calls (fst (step (Post n p) st)) = create_calls st @ [[intent_params]]"
    using step_create_calls [of "Post n p" st] by auto
  have refused: "express_json p = None \<longrightarrow> step (Post n p) st = (st, [Refused 400])"
    by simp
  have settle: "create_calls (fst (step (Settle n awaited) st)) = create_calls st"
    using step_create_calls [of "Settle n awaited" st] by simp
  show ?thesis
    using handler handed_on refused settle
    by (simp add: resume_create_calls run_create_calls)
qed

text \<open>
  A request with an empty object as its body, whose call then throws: one invocation, and
  none more after the throw. A request with an unparseable body: refused.
\<close>

theorem intent_one_call_when_handled_witness:
  "express_json (Parsed (JObj [])) = Some \<lparr>req_body = JObj []\<rparr>
   \<and> create_calls (fst (step (Post 1 (Parsed (JObj []))) (boot (map_of [])))) = [[intent_params]]
   \<and> create_calls (fst (run [Post 1 (Parsed (JObj [])), Settle 1 (Throw (js_Error ''card declined''))]
        (boot (map_of [])))) = [[intent_params]]
   \<and> express_json Unparseable = None
   \<and> step (Post 2 Unparseable) (boot (map_of [])) = (boot (map_of []), [Refused 400])"
proof -
  have b: "create_calls (boot (map_of [])) = []"
    by (simp add: boot_def)
  have h1: "express_json (Parsed (JObj [])) = Some \<lparr>req_body = JObj []\<rparr>"
    by simp
  have h2: "express_json Unparseable = None"
    by simp
  have one: "create_calls (fst (step (Post 1 (Parsed (JObj []))) (boot (map_of [])))) =
      [[intent_params]]"
    using h1 b
      intent_one_call_when_handled [of "Throw (js_Error ''card declined'')" "\<lparr>req_body = JObj []\<rparr>" new_res
        "boot (map_of [])" "Parsed (JObj [])" 1
        "[Post 1 (Parsed (JObj [])), Settle 1 (Throw (js_Error ''card declined''))]"]
    by simp
  have trace: "create_calls (fst (run [Post 1 (Parsed (JObj [])),
        Settle 1 (Throw (js_Error ''card declined''))] (boot (map_of [])))) = [[intent_params]]"
    using b
      intent_one_call_when_handled [of "Throw (js_Error ''card declined'')" "\<lparr>req_body = JObj []\<rparr>" new_res
        "boot (map_of [])" "Parsed (JObj [])" 1
        "[Post 1 (Parsed (JObj [])), Settle 1 (Throw (js_Error ''card declined''))]"]
    by simp
  have none: "step (Post 2 Unparseable) (boot (map_of [])) = (boot (map_of []), [Refused 400])"
    using h2
      intent_one_call_when_handled [of "Throw JNull" "\<lparr>req_body = JObj []\<rparr>" new_res
        "boot (map_of [])" Unparseable 2 "[]"]
    by simp
  show ?thesis
    using h1 h2 one trace none by simp
qed

subsection \<open>The configuration\<close>

text \<open>
  Claim C7. The configuration is what line 4 and line 6 made of the environment at
  startup, and stays so: no turn of either handler changes it, so after any sequence of
  arrivals and settlements, in any order, it is the startup one. What a handler answers
  does not depend on the requests served before: run after any sequence of turns, it
  gives the response it gives without them.
\<close>

theorem config_never_modified:
  "config (fst (run evs (boot e))) =
     \<lparr>env = e,
      stripe_key = env_get e ''STRIPE_SECRET_KEY'',
      port = js_or (env_get e ''PORT'') (JNum 3000)\<rparr>
   \<and> config (fst (step ev st)) = config st
   \<and> snd (stripe_public_key rq new_res (fst (run evs st))) = snd (stripe_public_key rq new_res st)
   \<and> snd (create_payment_intent awaited rq new_res (fst (run evs st))) =
     snd (create_payment_intent awaited rq new_res st)"
proof -
  have a: "config (fst (run evs (boot e))) = startup e"
    using run_config [of evs "boot e"] by (simp add: boot_def)
  have b: "snd (stripe_public_key rq new_res (fst (run evs st))) =
      snd (stripe_public_key rq new_res st)"
    by (simp add: stripe_public_key_def run_config)
  have c: "snd (create_payment_intent awaited rq new_res (fst (run evs st))) =
      snd (create_payment_intent awaited rq new_res st)"
    unfolding create_payment_intent_def by (rule resume_reply_any_state)
  show ?thesis using a b c by (simp add: startup_def step_config)
qed

subsection \<open>The port\<close>

text \<open>
  Claim C8. The port is the value of \<^verbatim>\<open>PORT\<close> when the environment gives one, and 3000
  when \<^verbatim>\<open>PORT\<close> is not set. (\<^verbatim>\<open>||\<close> takes an empty \<^verbatim>\<open>PORT\<close> for no value: 3000 again.)
\<close>

theorem port_default:
  "(e ''PORT'' = Some p \<and> p \<noteq> [] \<longrightarrow> port (startup e) = JStr p)
   \<and> (e ''PORT'' = None \<longrightarrow> port (startup e) = JNum 3000)
   \<and> (e ''PORT'' = Some [] \<longrightarrow> port (startup e) = JNum 3000)"
  by (simp add: startup_def env_get_def js_or_def)

theorem port_default_witness:
  "map_of [(''PORT'', ''8080'')] ''PORT'' = Some ''8080'' \<and> ''8080'' \<noteq> []
   \<and> port (startup (map_of [(''PORT'', ''8080'')])) = JStr ''8080''
   \<and> map_of [(''STRIPE_SECRET_KEY'', ''sk_test_1'')] ''PORT'' = None
   \<and> port (startup (map_of [(''STRIPE_SECRET_KEY'', ''sk_test_1'')])) = JNum 3000
   \<and> map_of [(''PORT'', [])] ''PORT'' = Some []
   \<and> port (startup (map_of [(''PORT'', [])])) = JNum 3000"
  using port_default [of "map_of [(''PORT'', ''8080'')]" "''8080''"]
    port_default [of "map_of [(''STRIPE_SECRET_KEY'', ''sk_test_1'')]" "''8080''"]
    port_default [of "map_of [(''PORT'', [])]" "''8080''"]
  by simp

subsection \<open>The intent endpoint: a thrown value without a message\<close>

text \<open>
  Claim C9, as stated: whenever the provider call throws a value that has no
  \<^verbatim>\<open>message\<close> property, the response is 500 with the empty object as its body. It fails
  for a thrown \<^verbatim>\<open>undefined\<close> (and \<^verbatim>\<open>null\<close>): reading \<^verbatim>\<open>error.message\<close> throws inside the
  \<^verbatim>\<open>catch\<close> block, after \<^verbatim>\<open>res.status(500)\<close> and before \<^verbatim>\<open>send\<close>, and the handler sends
  nothing.
\<close>

theorem throw_undefined_counterexample:
  "\<not> (\<not> has_prop JUndefined ''message'' \<longrightarrow>
       reply (fst (snd (create_payment_intent (Throw JUndefined)
          \<lparr>req_body = JObj []\<rparr> new_res (boot (map_of []))))) = Some (500, JsObj []))"
  by (simp add: create_payment_intent_def create_payment_intent_resume_def try_block_def
      catch_block_def res_status_def new_res_def reply_def)

text \<open>
  Claim C9, amended: when the provider call throws a value other than \<^verbatim>\<open>undefined\<close> and
  \<^verbatim>\<open>null\<close> that has no \<^verbatim>\<open>message\<close> property, the response is 500, its body is the empty
  object (no \<^verbatim>\<open>error\<close> field), and the value is appended to the error stream.
\<close>

theorem messageless_throw_reply:
  assumes "error \<noteq> JUndefined" and "error \<noteq> JNull" and "\<not> has_prop error ''message''"
  shows "create_payment_intent (Throw error) rq new_res st =
           ((create_payment_intent_call rq st)\<lparr>error_stream := error_stream st @ [error]\<rparr>,
            \<lparr>statusCode = 500, body = Some (JsObj [])\<rparr>,
            None)"
proof -
  have "get_prop error ''message'' = Normal JUndefined"
    using assms by (cases error) auto
  then show ?thesis
    by (simp add: create_payment_intent_def create_payment_intent_resume_def try_block_def
      catch_block_def res_send_def res_json_def res_status_def new_res_def
      create_payment_intent_call_simps)
qed

theorem messageless_throw_reply_witness:
  "JStr ''boom'' \<noteq> JUndefined \<and> JStr ''boom'' \<noteq> JNull \<and> \<not> has_prop (JStr ''boom'') ''message''
   \<and> reply (fst (snd (create_payment_intent (Throw (JStr ''boom''))
        \<lparr>req_body = JObj []\<rparr> new_res (boot (map_of []))))) = Some (500, JsObj [])"
proof -
  have h1: "JStr ''boom'' \<noteq> JUndefined" and h2: "JStr ''boom'' \<noteq> JNull"
    and h3: "\<not> has_prop (JStr ''boom'') ''message''"
    by simp_all
  show ?thesis
    using h1 h2 h3
      messageless_throw_reply [OF h1 h2 h3, of "\<lparr>req_body = JObj []\<rparr>" "boot (map_of [])"]
    by (simp add: reply_def)
qed

subsection \<open>The intent endpoint: the statuses it sends\<close>

text \<open>
  Claim C10. Whatever the provider call resolves with or throws, a response the handler
  sends has status 200 or status 500.
\<close>

theorem intent_status_200_or_500:
  assumes "reply (fst (snd (create_payment_intent awaited rq new_res st))) = Some (s, j)"
  shows "s = 200 \<or> s = 500"
  using assms
  by (auto simp: create_payment_intent_def create_payment_intent_resume_def try_block_def
      catch_block_def res_send_def res_json_def res_status_def new_res_def reply_def Let_def
      split: completion.splits option.splits)

text \<open>A provider resolving with \<^verbatim>\<open>null\<close>: the read of \<^verbatim>\<open>client_secret\<close> throws, and the answer is a 500.\<close>

theorem intent_status_200_or_500_witness:
  "reply (fst (snd (create_payment_intent (Normal JNull) \<lparr>req_body = JObj []\<rparr> new_res
       (boot (map_of []))))) =
     Some (500, JsObj [(''error'', JsStr (''Cannot read properties of null (reading ''
        @ [CHR 0x27] @ ''client_secret'' @ [CHR 0x27] @ '')''))])
   \<and> ((500::nat) = 200 \<or> (500::nat) = 500)"
proof -
  have h: "reply (fst (snd (create_payment_intent (Normal JNull) \<lparr>req_body = JObj []\<rparr> new_res
       (boot (map_of []))))) =
     Some (500, JsObj [(''error'', JsStr (''Cannot read properties of null (reading ''
        @ [CHR 0x27] @ ''client_secret'' @ [CHR 0x27] @ '')''))])"
    by (simp add: create_payment_intent_def create_payment_intent_resume_def try_block_def
      catch_block_def res_send_def res_json_def res_status_def new_res_def reply_def
      type_error_def js_Error_def)
  show ?thesis
    using h intent_status_200_or_500 [OF h] by simp
qed

end
